theory Spec2Isabelle
  imports Main "HOL-Library.Word" "HOL-Library.Sublist"
begin

section \<open>ACE Network Protocol (lib/saq/anp.py)\<close>

text \<open>
  A shallow embedding of \<^verbatim>\<open>lib/saq/anp.py\<close>: the framing routines of
  \<^verbatim>\<open>ANPSocket\<close>, the message classes with the lookup table, and the
  per-connection loop of \<^verbatim>\<open>ACENetworkProtocolServer\<close>.

  Every routine takes the state it works on and returns the new state next to its
  result; a raised exception is \<open>Inl\<close>, and the state reached when it was raised is
  kept, since bytes already received or sent stay received or sent.
\<close>

subsection \<open>Python values and exceptions\<close>

type_synonym byte = "8 word"
type_synonym bytes = "byte list"

text \<open>A Python \<^verbatim>\<open>str\<close> is a sequence of code points.\<close>

type_synonym pystr = "nat list"

text \<open>
  The values an attribute of a message can hold: \<^verbatim>\<open>None\<close>, a string, or the
  \<^verbatim>\<open>ANPSocket\<close> that \<^verbatim>\<open>recv_message\<close> passes as the first
  constructor argument.
\<close>

datatype pyval = PyNone | PyStr pystr | PyANPSocket

datatype anp_reason = EndOfStream nat | UnknownCommand nat

datatype exception =
    ANPException anp_reason
  | AssertionError
  | StructError
  | TypeError
  | AttributeError
  | ValueError
  | OSError
  | UnicodeEncodeError
  | UnicodeDecodeError
  | FileNotFoundError
  | FileExistsError
  | IsADirectoryError
  | NotADirectoryError
  | HandlerError nat

subsection \<open>Messages\<close>

text \<open>
  An instance of one of the ten subclasses of \<^verbatim>\<open>ANPMessage\<close>, with the
  attributes its \<^verbatim>\<open>__init__\<close> sets besides \<^verbatim>\<open>command\<close>.
\<close>

datatype ANPMessage =
    ANPCommandEXIT
  | ANPCommandREGISTER
  | ANPCommandOK
  | ANPCommandBUSY
  | ANPCommandERROR pyval
  | ANPCommandPING pyval
  | ANPCommandPONG pyval
  | ANPCommandAVAILABLE
  | ANPCommandCOPY_FILE pyval pyval
  | ANPCommandPROCESS pyval

subsection \<open>Constants\<close>

definition DEFAULT_CHUNK_SIZE :: nat where
  "DEFAULT_CHUNK_SIZE = 256 * 1024"

definition LAST_CHUNK :: bytes where
  "LAST_CHUNK = []"

text \<open>\<^verbatim>\<open>io.DEFAULT_BUFFER_SIZE\<close> of CPython.\<close>

definition io_DEFAULT_BUFFER_SIZE :: nat where
  "io_DEFAULT_BUFFER_SIZE = 8192"

subsection \<open>The state: one socket, the filesystem, the log\<close>

datatype log_event =
    LogDebugTarget pystr
  | LogDebugCreatingDir pystr
  | LogWarningExists pystr
  | LogInfoReceived ANPMessage
  | LogErrorProcessing ANPMessage exception
  | LogWarningHandling exception
  | ReportException

text \<open>
  The socket is a blocking TCP socket. \<open>inbound\<close> holds what the peer has written and
  this side has not yet received, as the list of pieces in which the network hands it
  over; the peer has closed its end after the last piece. Any behaviour of
  \<^verbatim>\<open>recv\<close> (short reads, coalesced writes) is one choice of the pieces.
  \<open>outbound\<close> holds the pieces accepted by \<^verbatim>\<open>send\<close>, in order.
  \<open>send_caps\<close> fixes how much each coming \<^verbatim>\<open>send\<close> accepts: an entry
  \<open>c\<close> lets the call take at most \<open>c + 1\<close> bytes, and a call with no entry left
  takes everything.
\<close>

record world =
  inbound :: "bytes list"
  outbound :: "bytes list"
  send_caps :: "nat list"
  sock_shut :: bool
  sock_closed :: bool
  files :: "pystr \<rightharpoonup> bytes"
  dirs :: "pystr set"
  log :: "log_event list"

type_synonym 'a result = "(exception + 'a) \<times> world"

fun recv_segments :: "nat \<Rightarrow> bytes list \<Rightarrow> bytes \<times> bytes list" where
  "recv_segments n [] = ([], [])"
| "recv_segments n (seg # segs) =
     (if seg = [] then recv_segments n segs
      else if length seg \<le> n then (seg, segs)
      else (take n seg, drop n seg # segs))"

text \<open>
  \<^verbatim>\<open>socket.recv(bufsize)\<close>: at most \<open>bufsize\<close> bytes of the next piece, the
  empty byte string once the peer has closed (or after a shutdown of this side), and
  an error on a closed socket.
\<close>

definition recv :: "nat \<Rightarrow> world \<Rightarrow> bytes result" where
  "recv bufsize w =
     (if sock_closed w then (Inl OSError, w)
      else if sock_shut w then (Inr [], w)
      else (case recv_segments bufsize (inbound w) of
              (data, segs) \<Rightarrow> (Inr data, w\<lparr>inbound := segs\<rparr>)))"

text \<open>
  \<^verbatim>\<open>socket.send(data)\<close>: accepts a non-empty prefix of non-empty data and
  returns how many bytes it took.
\<close>

definition send :: "bytes \<Rightarrow> world \<Rightarrow> nat result" where
  "send data w =
     (if sock_closed w \<or> sock_shut w then (Inl OSError, w)
      else (case send_caps w of
              [] \<Rightarrow> (Inr (length data), w\<lparr>outbound := outbound w @ [data]\<rparr>)
            | c # cs \<Rightarrow>
                (Inr (min (length data) (Suc c)),
                 w\<lparr>outbound := outbound w @ [take (Suc c) data], send_caps := cs\<rparr>)))"

subsection \<open>ANPSocket: reading and writing exact byte counts\<close>

text \<open>
  The loop of \<^verbatim>\<open>read_n_bytes\<close>. The slice assignment
  \<^verbatim>\<open>byte_buffer[bytes_read:bytes_read + count] = data\<close> replaces the slice,
  clipped to the buffer, by \<open>data\<close>, whatever the two lengths are.
\<close>

function read_n_bytes_loop :: "nat \<Rightarrow> nat \<Rightarrow> bytes \<Rightarrow> world \<Rightarrow> bytes option result" where
  "read_n_bytes_loop count bytes_read byte_buffer w =
     (if bytes_read < count then
        (let bytes_left = count - bytes_read;
             chunk_size = (if io_DEFAULT_BUFFER_SIZE < count then io_DEFAULT_BUFFER_SIZE else count)
         in case recv chunk_size w of
              (Inl e, w') \<Rightarrow> (Inl e, w')
            | (Inr data, w') \<Rightarrow>
                if length data = 0 \<and> bytes_read = 0 then (Inr None, w')
                else if length data = 0 then (Inl (ANPException (EndOfStream bytes_left)), w')
                else read_n_bytes_loop count (bytes_read + length data)
                       (take bytes_read byte_buffer @ data @ drop (bytes_read + count) byte_buffer)
                       w')
      else (Inr (Some byte_buffer), w))"
  by pat_completeness auto
termination
  by (relation "measure (\<lambda>(count, bytes_read, byte_buffer, w). count - bytes_read)")
     (auto simp: neq_Nil_conv)

declare read_n_bytes_loop.simps [simp del]

definition read_n_bytes :: "nat \<Rightarrow> world \<Rightarrow> bytes option result" where
  "read_n_bytes count w =
     (if count = 0 then (Inl AssertionError, w)
      else read_n_bytes_loop count 0 (replicate count 0) w)"

function write_n_bytes_loop :: "bytes \<Rightarrow> nat \<Rightarrow> world \<Rightarrow> unit result" where
  "write_n_bytes_loop data bytes_written w =
     (if bytes_written < length data then
        (let bytes_left = length data - bytes_written;
             chunk_size = (if io_DEFAULT_BUFFER_SIZE < length data then io_DEFAULT_BUFFER_SIZE
                           else length data)
         in case send (take chunk_size (drop bytes_written data)) w of
              (Inl e, w') \<Rightarrow> (Inl e, w')
            | (Inr bytes_sent, w') \<Rightarrow> write_n_bytes_loop data (bytes_written + bytes_sent) w')
      else (Inr (), w))"
  by pat_completeness auto
termination
  by (relation "measure (\<lambda>(data, bytes_written, w). length data - bytes_written)")
     (auto simp: send_def io_DEFAULT_BUFFER_SIZE_def split: if_splits list.splits)

declare write_n_bytes_loop.simps [simp del]

definition write_n_bytes :: "bytes \<Rightarrow> world \<Rightarrow> unit result" where
  "write_n_bytes data w = write_n_bytes_loop data 0 w"

subsection \<open>Fixed-width integers\<close>

text \<open>
  \<^verbatim>\<open>struct.pack('!I', value)\<close> and \<^verbatim>\<open>struct.unpack('!I', data)[0]\<close>:
  four bytes, big-endian; a value out of range and a buffer of another length raise
  \<^verbatim>\<open>struct.error\<close>.
\<close>

definition struct_pack_uint :: "nat \<Rightarrow> exception + bytes" where
  "struct_pack_uint v =
     (if v < 2 ^ 32
      then Inr [of_nat (v div 16777216), of_nat (v div 65536), of_nat (v div 256), of_nat v]
      else Inl StructError)"

definition struct_unpack_uint :: "bytes \<Rightarrow> exception + nat" where
  "struct_unpack_uint data =
     (case data of
        [a, b, c, d] \<Rightarrow> Inr (unat a * 16777216 + unat b * 65536 + unat c * 256 + unat d)
      | _ \<Rightarrow> Inl StructError)"

definition read_uint :: "world \<Rightarrow> nat option result" where
  "read_uint w =
     (case read_n_bytes 4 w of
        (Inl e, w') \<Rightarrow> (Inl e, w')
      | (Inr None, w') \<Rightarrow> (Inr None, w')
      | (Inr (Some data), w') \<Rightarrow>
          (case struct_unpack_uint data of
             Inl e \<Rightarrow> (Inl e, w')
           | Inr v \<Rightarrow> (Inr (Some v), w')))"

definition write_uint :: "nat \<Rightarrow> world \<Rightarrow> unit result" where
  "write_uint v w =
     (case struct_pack_uint v of
        Inl e \<Rightarrow> (Inl e, w)
      | Inr data \<Rightarrow> write_n_bytes data w)"

subsection \<open>Length-prefixed blocks\<close>

text \<open>
  What the module reads from the package \<^verbatim>\<open>saq\<close>, which is not part of this
  file: the shared secret (\<^verbatim>\<open>None\<close> when encryption is off), the home
  directory, and the two cipher routines of \<^verbatim>\<open>saq.crypto\<close>. They are
  parameters of the model. \<^verbatim>\<open>decrypt_chunk\<close> takes what
  \<^verbatim>\<open>read_n_bytes\<close> returned, which may be \<^verbatim>\<open>None\<close>.
\<close>

record saq =
  ENCRYPTION_PASSWORD :: "bytes option"
  SAQ_HOME :: pystr
  encrypt_chunk :: "bytes \<Rightarrow> exception + bytes"
  decrypt_chunk :: "bytes option \<Rightarrow> exception + bytes"

definition read_data :: "saq \<Rightarrow> world \<Rightarrow> bytes option result" where
  "read_data env w =
     (case read_uint w of
        (Inl e, w') \<Rightarrow> (Inl e, w')
      | (Inr None, w') \<Rightarrow> (Inr None, w')
      | (Inr (Some data_length), w') \<Rightarrow>
          if data_length = 0 then (Inr (Some []), w')
          else (case read_n_bytes data_length w' of
                  (Inl e, w'') \<Rightarrow> (Inl e, w'')
                | (Inr result, w'') \<Rightarrow>
                    if ENCRYPTION_PASSWORD env = None then (Inr result, w'')
                    else (case decrypt_chunk env result of
                            Inl e \<Rightarrow> (Inl e, w'')
                          | Inr plain \<Rightarrow> (Inr (Some plain), w''))))"

text \<open>
  \<^verbatim>\<open>if saq.ENCRYPTION_PASSWORD:\<close> tests the truth value of the secret: it is
  false for \<^verbatim>\<open>None\<close> and for an empty one.
\<close>

definition truthy :: "bytes option \<Rightarrow> bool" where
  "truthy v = (case v of None \<Rightarrow> False | Some x \<Rightarrow> x \<noteq> [])"

definition write_data :: "saq \<Rightarrow> bytes \<Rightarrow> world \<Rightarrow> unit result" where
  "write_data env v w =
     (case (if truthy (ENCRYPTION_PASSWORD env) then encrypt_chunk env v else Inr v) of
        Inl e \<Rightarrow> (Inl e, w)
      | Inr v' \<Rightarrow>
          (case write_uint (length v') w of
             (Inl e, w') \<Rightarrow> (Inl e, w')
           | (Inr u, w') \<Rightarrow> if length v' > 0 then write_n_bytes v' w' else (Inr (), w')))"

subsection \<open>Strings\<close>

text \<open>
  The codec \<^verbatim>\<open>'utf16'\<close> of CPython on a little-endian host.
  \<^verbatim>\<open>str.encode\<close> writes the byte order mark FF FE and then each code point as
  one 16-bit unit or as a surrogate pair, low byte first; a surrogate code point cannot
  be encoded. \<^verbatim>\<open>bytes.decode\<close> takes the byte order from a leading mark,
  little-endian without one, and rejects an odd number of bytes and unpaired
  surrogates.
\<close>

definition utf16_encode_code_point :: "nat \<Rightarrow> exception + nat list" where
  "utf16_encode_code_point c =
     (if c < 0xD800 then Inr [c]
      else if c < 0xE000 then Inl UnicodeEncodeError
      else if c < 0x10000 then Inr [c]
      else if c < 0x110000
        then Inr [0xD800 + (c - 0x10000) div 0x400, 0xDC00 + (c - 0x10000) mod 0x400]
      else Inl UnicodeEncodeError)"

fun utf16_encode_units :: "pystr \<Rightarrow> exception + nat list" where
  "utf16_encode_units [] = Inr []"
| "utf16_encode_units (c # cs) =
     (case utf16_encode_code_point c of
        Inl e \<Rightarrow> Inl e
      | Inr us \<Rightarrow>
          (case utf16_encode_units cs of
             Inl e \<Rightarrow> Inl e
           | Inr r \<Rightarrow> Inr (us @ r)))"

definition unit_bytes_le :: "nat \<Rightarrow> bytes" where
  "unit_bytes_le u = [of_nat (u mod 256), of_nat (u div 256)]"

definition str_encode_utf16 :: "pystr \<Rightarrow> exception + bytes" where
  "str_encode_utf16 s =
     (case utf16_encode_units s of
        Inl e \<Rightarrow> Inl e
      | Inr us \<Rightarrow> Inr ([0xFF, 0xFE] @ concat (map unit_bytes_le us)))"

fun utf16_units :: "bool \<Rightarrow> bytes \<Rightarrow> exception + nat list" where
  "utf16_units big_endian [] = Inr []"
| "utf16_units big_endian [a] = Inl UnicodeDecodeError"
| "utf16_units big_endian (a # b # r) =
     (case utf16_units big_endian r of
        Inl e \<Rightarrow> Inl e
      | Inr us \<Rightarrow>
          Inr ((if big_endian then unat a * 256 + unat b else unat b * 256 + unat a) # us))"

fun utf16_code_points :: "nat list \<Rightarrow> exception + pystr" where
  "utf16_code_points [] = Inr []"
| "utf16_code_points (u # us) =
     (if u < 0xD800 \<or> 0xDFFF < u then
        (case utf16_code_points us of
           Inl e \<Rightarrow> Inl e
         | Inr r \<Rightarrow> Inr (u # r))
      else if u < 0xDC00 then
        (case us of
           [] \<Rightarrow> Inl UnicodeDecodeError
         | u2 # us' \<Rightarrow>
             if 0xDC00 \<le> u2 \<and> u2 < 0xE000 then
               (case utf16_code_points us' of
                  Inl e \<Rightarrow> Inl e
                | Inr r \<Rightarrow> Inr ((0x10000 + (u - 0xD800) * 0x400 + (u2 - 0xDC00)) # r))
             else Inl UnicodeDecodeError)
      else Inl UnicodeDecodeError)"

definition utf16_decode_body :: "bool \<Rightarrow> bytes \<Rightarrow> exception + pystr" where
  "utf16_decode_body big_endian b =
     (case utf16_units big_endian b of
        Inl e \<Rightarrow> Inl e
      | Inr us \<Rightarrow> utf16_code_points us)"

definition bytes_decode_utf16 :: "bytes \<Rightarrow> exception + pystr" where
  "bytes_decode_utf16 b =
     (case b of
        a # c # r \<Rightarrow>
          if a = 0xFF \<and> c = 0xFE then utf16_decode_body False r
          else if a = 0xFE \<and> c = 0xFF then utf16_decode_body True r
          else utf16_decode_body False b
      | _ \<Rightarrow> utf16_decode_body False b)"

definition read_string :: "saq \<Rightarrow> world \<Rightarrow> pyval result" where
  "read_string env w =
     (case read_data env w of
        (Inl e, w') \<Rightarrow> (Inl e, w')
      | (Inr None, w') \<Rightarrow> (Inr PyNone, w')
      | (Inr (Some b), w') \<Rightarrow>
          (case bytes_decode_utf16 b of
             Inl e \<Rightarrow> (Inl e, w')
           | Inr s \<Rightarrow> (Inr (PyStr s), w')))"

text \<open>
  \<^verbatim>\<open>value.encode('utf16')\<close> exists on strings only: \<^verbatim>\<open>None\<close> and other
  objects have no such attribute.
\<close>

definition write_string :: "saq \<Rightarrow> pyval \<Rightarrow> world \<Rightarrow> unit result" where
  "write_string env v w =
     (case v of
        PyStr s \<Rightarrow>
          (case str_encode_utf16 s of
             Inl e \<Rightarrow> (Inl e, w)
           | Inr b \<Rightarrow> write_data env b w)
      | _ \<Rightarrow> (Inl AttributeError, w))"

subsection \<open>Files\<close>

text \<open>
  The part of \<^verbatim>\<open>os\<close>, \<^verbatim>\<open>os.path\<close> and \<^verbatim>\<open>open\<close> that the module
  calls, on a POSIX host (\<open>47\<close> is the slash). A file open for writing is named by
  its path: what is written to it is appended to its contents in \<open>files\<close>. A file
  open for reading is the part of its contents not read yet.
\<close>

definition os_path_join :: "pystr \<Rightarrow> pystr \<Rightarrow> pystr" where
  "os_path_join a p =
     (if take 1 p = [47] then p
      else if a = [] \<or> last a = 47 then a @ p
      else a @ [47] @ p)"

definition os_path_dirname :: "pystr \<Rightarrow> pystr" where
  "os_path_dirname p =
     (let head = rev (dropWhile (\<lambda>c. c \<noteq> 47) (rev p))
      in if head \<noteq> [] \<and> (\<exists>c \<in> set head. c \<noteq> 47)
         then rev (dropWhile (\<lambda>c. c = 47) (rev head))
         else head)"

definition os_path_isdir :: "pystr \<Rightarrow> world \<Rightarrow> bool" where
  "os_path_isdir p w = (p \<in> dirs w)"

definition os_path_exists :: "pystr \<Rightarrow> world \<Rightarrow> bool" where
  "os_path_exists p w = (p \<in> dirs w \<or> files w p \<noteq> None)"

definition path_ancestors :: "pystr \<Rightarrow> pystr list" where
  "path_ancestors p = map (\<lambda>i. take i p) (filter (\<lambda>i. p ! i = 47) [1..<length p])"

definition os_makedirs :: "pystr \<Rightarrow> world \<Rightarrow> unit result" where
  "os_makedirs name w =
     (if name = [] then (Inl FileNotFoundError, w)
      else if os_path_exists name w then (Inl FileExistsError, w)
      else if \<exists>d \<in> set (path_ancestors name). files w d \<noteq> None
        then (Inl NotADirectoryError, w)
      else (Inr (), w\<lparr>dirs := dirs w \<union> set (path_ancestors name) \<union> {name}\<rparr>))"

definition open_wb :: "pystr \<Rightarrow> world \<Rightarrow> pystr result" where
  "open_wb p w =
     (if os_path_isdir p w then (Inl IsADirectoryError, w)
      else if os_path_dirname p \<noteq> [] \<and> \<not> os_path_isdir (os_path_dirname p) w
        then (Inl FileNotFoundError, w)
      else (Inr p, w\<lparr>files := (files w)(p \<mapsto> [])\<rparr>))"

definition open_rb :: "pyval \<Rightarrow> world \<Rightarrow> bytes result" where
  "open_rb v w =
     (case v of
        PyStr p \<Rightarrow>
          (if os_path_isdir p w then (Inl IsADirectoryError, w)
           else (case files w p of
                   None \<Rightarrow> (Inl FileNotFoundError, w)
                 | Some content \<Rightarrow> (Inr content, w)))
      | _ \<Rightarrow> (Inl TypeError, w))"

text \<open>\<^verbatim>\<open>fp.write(chunk)\<close>; writing \<^verbatim>\<open>None\<close> is a type error.\<close>

definition fp_write :: "pystr \<Rightarrow> bytes option \<Rightarrow> world \<Rightarrow> unit result" where
  "fp_write fp chunk w =
     (case chunk of
        None \<Rightarrow> (Inl TypeError, w)
      | Some c \<Rightarrow>
          (Inr (), w\<lparr>files := (files w)(fp \<mapsto> (case files w fp of None \<Rightarrow> c | Some old \<Rightarrow> old @ c))\<rparr>))"

subsection \<open>Chunked streams\<close>

text \<open>
  Every block that \<^verbatim>\<open>read_data\<close> returns has taken bytes from the socket, so the
  loop of \<^verbatim>\<open>read_chunked_data\<close> ends: on the terminator, on an error, or, once
  the peer has closed, on the attempt to write \<^verbatim>\<open>None\<close> to the file.
\<close>

lemma recv_segments_length:
  "recv_segments n segs = (d, segs') \<Longrightarrow>
   length (concat segs) = length d + length (concat segs')"
  by (induction n segs rule: recv_segments.induct) (auto split: if_splits)

lemma recv_length:
  "recv n w = (Inr d, w') \<Longrightarrow>
   length (concat (inbound w)) = length d + length (concat (inbound w'))"
  by (auto simp: recv_def split: if_splits prod.splits dest: recv_segments_length)

lemma recv_Inl: "recv n w = (Inl e, w') \<Longrightarrow> w' = w"
  by (auto simp: recv_def split: if_splits prod.splits)

lemma read_n_bytes_loop_length:
  "read_n_bytes_loop count bytes_read buf w = (res, w') \<Longrightarrow>
   length (concat (inbound w')) \<le> length (concat (inbound w)) \<and>
   (\<forall>r. res = Inr (Some r) \<longrightarrow>
      length (concat (inbound w')) + count \<le> length (concat (inbound w)) + bytes_read)"
proof (induction "count - bytes_read" arbitrary: bytes_read buf w rule: less_induct)
  case less
  show ?case
  proof (cases "bytes_read < count")
    case False
    with less.prems show ?thesis by (auto simp: read_n_bytes_loop.simps)
  next
    case True
    let ?cs = "if io_DEFAULT_BUFFER_SIZE < count then io_DEFAULT_BUFFER_SIZE else count"
    obtain res1 w1 where r: "recv ?cs w = (res1, w1)" by (cases "recv ?cs w")
    show ?thesis
    proof (cases res1)
      case (Inl e)
      with less.prems True r recv_Inl [of ?cs w e w1] show ?thesis
        by (auto simp: read_n_bytes_loop.simps [of count bytes_read])
    next
      case (Inr data)
      note len = recv_length [of ?cs w data w1]
      show ?thesis
      proof (cases "data = []")
        case True
        with less.prems \<open>bytes_read < count\<close> r Inr len show ?thesis
          by (auto simp: read_n_bytes_loop.simps [of count bytes_read] split: if_splits)
      next
        case False
        with less.prems True r Inr
        have rec: "read_n_bytes_loop count (bytes_read + length data)
                 (take bytes_read buf @ data @ drop (bytes_read + count) buf) w1 = (res, w')"
          by (auto simp: read_n_bytes_loop.simps [of count bytes_read] split: if_splits)
        from False True have "count - (bytes_read + length data) < count - bytes_read"
          by (cases data) auto
        from less.hyps [OF this rec] len r Inr show ?thesis by auto
      qed
    qed
  qed
qed

lemma read_n_bytes_length:
  "read_n_bytes n w = (res, w') \<Longrightarrow>
   length (concat (inbound w')) \<le> length (concat (inbound w)) \<and>
   (\<forall>r. res = Inr (Some r) \<longrightarrow> length (concat (inbound w')) + n \<le> length (concat (inbound w)))"
  using read_n_bytes_loop_length [of n 0 "replicate n 0" w res w']
  by (auto simp: read_n_bytes_def split: if_splits)

lemma read_uint_length:
  "read_uint w = (Inr (Some v), w') \<Longrightarrow>
   length (concat (inbound w')) < length (concat (inbound w))"
  by (auto simp: read_uint_def split: prod.splits sum.splits option.splits
           dest!: read_n_bytes_length)

lemma read_data_length:
  "read_data env w = (Inr (Some c), w') \<Longrightarrow>
   length (concat (inbound w')) < length (concat (inbound w))"
  by (auto simp: read_data_def split: prod.splits sum.splits option.splits if_splits
           dest!: read_n_bytes_length read_uint_length)

function read_chunked_data :: "saq \<Rightarrow> pystr \<Rightarrow> world \<Rightarrow> unit result" where
  "read_chunked_data env fp w =
     (case read_data env w of
        (Inl e, w') \<Rightarrow> (Inl e, w')
      | (Inr next_chunk, w') \<Rightarrow>
          if next_chunk = Some LAST_CHUNK then (Inr (), w')
          else (case fp_write fp next_chunk w' of
                  (Inl e, w'') \<Rightarrow> (Inl e, w'')
                | (Inr u, w'') \<Rightarrow> read_chunked_data env fp w''))"
  by pat_completeness auto
termination
proof (relation "measure (\<lambda>(env, fp, w). length (concat (inbound w)))")
  show "wf (measure (\<lambda>(env, fp, w). length (concat (inbound w))))"
    by simp
next
  fix env :: saq and fp :: pystr and w w' w'' :: world
    and res :: "exception + bytes option" and next_chunk :: "bytes option"
    and res' :: "exception + unit" and u :: unit
  assume rd: "(res, w') = read_data env w" and res: "res = Inr next_chunk"
    and "next_chunk \<noteq> Some LAST_CHUNK"
    and wr: "(res', w'') = fp_write fp next_chunk w'" and res': "res' = Inr u"
  from wr res' obtain c where c: "next_chunk = Some c" and "inbound w'' = inbound w'"
    by (cases next_chunk) (auto simp: fp_write_def)
  moreover from rd res c have "length (concat (inbound w')) < length (concat (inbound w))"
    by (auto dest: read_data_length [OF sym])
  ultimately show "((env, fp, w''), (env, fp, w)) \<in> measure (\<lambda>(env, fp, w). length (concat (inbound w)))"
    by simp
qed

declare read_chunked_data.simps [simp del]

text \<open>
  \<^verbatim>\<open>fp.read(DEFAULT_CHUNK_SIZE)\<close> on a file opened with \<^verbatim>\<open>'rb'\<close> returns
  the next bytes of the file, fewer than asked only at its end.
\<close>

function write_chunked_data :: "saq \<Rightarrow> bytes \<Rightarrow> world \<Rightarrow> unit result" where
  "write_chunked_data env fp w =
     (let chunk = take DEFAULT_CHUNK_SIZE fp;
          fp' = drop DEFAULT_CHUNK_SIZE fp
      in case write_data env chunk w of
           (Inl e, w') \<Rightarrow> (Inl e, w')
         | (Inr u, w') \<Rightarrow>
             if chunk = [] then (Inr (), w') else write_chunked_data env fp' w')"
  by pat_completeness auto
termination
  by (relation "measure (\<lambda>(env, fp, w). length fp)") (auto simp: DEFAULT_CHUNK_SIZE_def)

declare write_chunked_data.simps [simp del]

subsection \<open>Commands and the lookup table\<close>

definition ANP_COMMAND_EXIT :: nat where "ANP_COMMAND_EXIT = 1"
definition ANP_COMMAND_REGISTER :: nat where "ANP_COMMAND_REGISTER = 2"
definition ANP_COMMAND_OK :: nat where "ANP_COMMAND_OK = 3"
definition ANP_COMMAND_ERROR :: nat where "ANP_COMMAND_ERROR = 4"
definition ANP_COMMAND_PING :: nat where "ANP_COMMAND_PING = 5"
definition ANP_COMMAND_PONG :: nat where "ANP_COMMAND_PONG = 6"
definition ANP_COMMAND_AVAILABLE :: nat where "ANP_COMMAND_AVAILABLE = 7"
definition ANP_COMMAND_COPY_FILE :: nat where "ANP_COMMAND_COPY_FILE = 8"
definition ANP_COMMAND_PROCESS :: nat where "ANP_COMMAND_PROCESS = 9"
definition ANP_COMMAND_BUSY :: nat where "ANP_COMMAND_BUSY = 10"

text \<open>
  The attribute \<^verbatim>\<open>command\<close>: each subclass passes its own constant to
  \<^verbatim>\<open>ANPMessage.__init__\<close>, and nothing assigns the attribute afterwards.
\<close>

fun command :: "ANPMessage \<Rightarrow> nat" where
  "command ANPCommandEXIT = ANP_COMMAND_EXIT"
| "command ANPCommandREGISTER = ANP_COMMAND_REGISTER"
| "command ANPCommandOK = ANP_COMMAND_OK"
| "command ANPCommandBUSY = ANP_COMMAND_BUSY"
| "command (ANPCommandERROR error_message) = ANP_COMMAND_ERROR"
| "command (ANPCommandPING message) = ANP_COMMAND_PING"
| "command (ANPCommandPONG message) = ANP_COMMAND_PONG"
| "command ANPCommandAVAILABLE = ANP_COMMAND_AVAILABLE"
| "command (ANPCommandCOPY_FILE path source_path) = ANP_COMMAND_COPY_FILE"
| "command (ANPCommandPROCESS target) = ANP_COMMAND_PROCESS"

text \<open>
  \<^verbatim>\<open>ANP_CLASS_LOOKUP\<close> maps a command id to a class. An entry is given as the
  call of the class with one positional argument, which is how
  \<^verbatim>\<open>recv_message\<close> instantiates it: a class without parameters drops the
  argument, the others take it as their first attribute, and
  \<^verbatim>\<open>source_path\<close> keeps its default \<^verbatim>\<open>None\<close>.
\<close>

definition ANP_CLASS_LOOKUP :: "nat \<rightharpoonup> (pyval \<Rightarrow> ANPMessage)" where
  "ANP_CLASS_LOOKUP =
     [ANP_COMMAND_EXIT \<mapsto> (\<lambda>arg. ANPCommandEXIT),
      ANP_COMMAND_REGISTER \<mapsto> (\<lambda>arg. ANPCommandREGISTER),
      ANP_COMMAND_OK \<mapsto> (\<lambda>arg. ANPCommandOK),
      ANP_COMMAND_ERROR \<mapsto> (\<lambda>arg. ANPCommandERROR arg),
      ANP_COMMAND_PING \<mapsto> (\<lambda>arg. ANPCommandPING arg),
      ANP_COMMAND_PONG \<mapsto> (\<lambda>arg. ANPCommandPONG arg),
      ANP_COMMAND_AVAILABLE \<mapsto> (\<lambda>arg. ANPCommandAVAILABLE),
      ANP_COMMAND_COPY_FILE \<mapsto> (\<lambda>arg. ANPCommandCOPY_FILE arg PyNone),
      ANP_COMMAND_PROCESS \<mapsto> (\<lambda>arg. ANPCommandPROCESS arg),
      ANP_COMMAND_BUSY \<mapsto> (\<lambda>arg. ANPCommandBUSY)]"

definition logging :: "log_event \<Rightarrow> world \<Rightarrow> world" where
  "logging ev w = w\<lparr>log := log w @ [ev]\<rparr>"

text \<open>
  \<^verbatim>\<open>ANPCommandCOPY_FILE.recv_parameters\<close> after the path has been read.
  \<^verbatim>\<open>os.path.join\<close> with \<^verbatim>\<open>None\<close> is a type error.
\<close>

definition recv_copy_file :: "saq \<Rightarrow> pyval \<Rightarrow> pyval \<Rightarrow> world \<Rightarrow> ANPMessage result" where
  "recv_copy_file env path source_path w =
     (case path of
        PyStr p \<Rightarrow>
          (let full_path = os_path_join (SAQ_HOME env) p;
               w1 = logging (LogDebugTarget full_path) w;
               dir_path = os_path_dirname full_path
           in case (if \<not> os_path_isdir dir_path w1
                    then os_makedirs dir_path (logging (LogDebugCreatingDir dir_path) w1)
                    else (Inr (), w1)) of
                (Inl e, w2) \<Rightarrow> (Inl e, w2)
              | (Inr u, w2) \<Rightarrow>
                  (let w3 = (if os_path_exists full_path w2
                             then logging (LogWarningExists full_path) w2 else w2)
                   in case open_wb full_path w3 of
                        (Inl e, w4) \<Rightarrow> (Inl e, w4)
                      | (Inr fp, w4) \<Rightarrow>
                          (case read_chunked_data env fp w4 of
                             (Inl e, w5) \<Rightarrow> (Inl e, w5)
                           | (Inr u, w5) \<Rightarrow> (Inr (ANPCommandCOPY_FILE path source_path), w5))))
      | _ \<Rightarrow> (Inl TypeError, w))"

text \<open>
  \<^verbatim>\<open>recv_parameters\<close> of each class, returning the object with the attributes it
  has assigned.
\<close>

fun recv_parameters :: "saq \<Rightarrow> ANPMessage \<Rightarrow> world \<Rightarrow> ANPMessage result" where
  "recv_parameters env (ANPCommandERROR error_message) w =
     (case read_string env w of
        (Inl e, w') \<Rightarrow> (Inl e, w')
      | (Inr v, w') \<Rightarrow> (Inr (ANPCommandERROR v), w'))"
| "recv_parameters env (ANPCommandPING message) w =
     (case read_string env w of
        (Inl e, w') \<Rightarrow> (Inl e, w')
      | (Inr v, w') \<Rightarrow> (Inr (ANPCommandPING v), w'))"
| "recv_parameters env (ANPCommandPONG message) w =
     (case read_string env w of
        (Inl e, w') \<Rightarrow> (Inl e, w')
      | (Inr v, w') \<Rightarrow> (Inr (ANPCommandPONG v), w'))"
| "recv_parameters env (ANPCommandCOPY_FILE path source_path) w =
     (case read_string env w of
        (Inl e, w') \<Rightarrow> (Inl e, w')
      | (Inr v, w') \<Rightarrow> recv_copy_file env v source_path w')"
| "recv_parameters env (ANPCommandPROCESS target) w =
     (case read_string env w of
        (Inl e, w') \<Rightarrow> (Inl e, w')
      | (Inr v, w') \<Rightarrow> (Inr (ANPCommandPROCESS v), w'))"
| "recv_parameters env m w = (Inr m, w)"

fun send_parameters :: "saq \<Rightarrow> ANPMessage \<Rightarrow> world \<Rightarrow> unit result" where
  "send_parameters env (ANPCommandERROR error_message) w = write_string env error_message w"
| "send_parameters env (ANPCommandPING message) w = write_string env message w"
| "send_parameters env (ANPCommandPONG message) w = write_string env message w"
| "send_parameters env (ANPCommandCOPY_FILE path source_path) w =
     (case write_string env path w of
        (Inl e, w') \<Rightarrow> (Inl e, w')
      | (Inr u, w') \<Rightarrow>
          (case open_rb source_path w' of
             (Inl e, w'') \<Rightarrow> (Inl e, w'')
           | (Inr fp, w'') \<Rightarrow> write_chunked_data env fp w''))"
| "send_parameters env (ANPCommandPROCESS target) w = write_string env target w"
| "send_parameters env m w = (Inr (), w)"

definition recv_message :: "saq \<Rightarrow> world \<Rightarrow> ANPMessage option result" where
  "recv_message env w =
     (case read_uint w of
        (Inl e, w') \<Rightarrow> (Inl e, w')
      | (Inr None, w') \<Rightarrow> (Inr None, w')
      | (Inr (Some cmd), w') \<Rightarrow>
          (case ANP_CLASS_LOOKUP cmd of
             None \<Rightarrow> (Inl (ANPException (UnknownCommand cmd)), w')
           | Some cls \<Rightarrow>
               (case recv_parameters env (cls PyANPSocket) w' of
                  (Inl e, w'') \<Rightarrow> (Inl e, w'')
                | (Inr result, w'') \<Rightarrow> (Inr (Some result), w''))))"

definition send_message :: "saq \<Rightarrow> ANPMessage \<Rightarrow> world \<Rightarrow> unit result" where
  "send_message env m w =
     (case write_uint (command m) w of
        (Inl e, w') \<Rightarrow> (Inl e, w')
      | (Inr u, w') \<Rightarrow> send_parameters env m w')"

subsection \<open>Closing a socket\<close>

datatype shut_how = SHUT_RDWR

text \<open>
  \<^verbatim>\<open>socket.shutdown(how)\<close> has one required argument: a call without it is a
  type error and leaves the socket as it was. \<^verbatim>\<open>socket.close()\<close> closes it.
\<close>

definition socket_shutdown :: "shut_how option \<Rightarrow> world \<Rightarrow> unit result" where
  "socket_shutdown how w =
     (case how of
        None \<Rightarrow> (Inl TypeError, w)
      | Some SHUT_RDWR \<Rightarrow>
          if sock_closed w then (Inl OSError, w) else (Inr (), w\<lparr>sock_shut := True\<rparr>))"

definition socket_close :: "world \<Rightarrow> unit result" where
  "socket_close w = (Inr (), w\<lparr>sock_closed := True\<rparr>)"

text \<open>\<^verbatim>\<open>ANPSocket.close_socket\<close>: both calls in a \<^verbatim>\<open>try\<close> that ignores errors.\<close>

definition close_socket :: "world \<Rightarrow> world" where
  "close_socket w = snd (socket_close (snd (socket_shutdown (Some SHUT_RDWR) w)))"

subsection \<open>The server's loop for one connection\<close>

text \<open>
  The command handler is a parameter: it gets the state (with the connection's socket)
  and the message, may read and write, and returns or raises.
\<close>

type_synonym handler = "world \<Rightarrow> ANPMessage \<Rightarrow> unit result"

text \<open>
  Modelled from the spec: \<^verbatim>\<open>saq.error.report_exception\<close> is not in this file; the
  spec treats error reporting as logging done by a collaborator, so the call records
  the report and returns.
\<close>

definition report_exception :: "world \<Rightarrow> world" where
  "report_exception w = logging ReportException w"

text \<open>
  \<^verbatim>\<open>tcp_client_execute\<close> returns \<^verbatim>\<open>False\<close> (\<open>Some False\<close>) at the end of
  the stream and on EXIT, and \<^verbatim>\<open>None\<close> after the handler has run.
\<close>

definition tcp_client_execute :: "handler \<Rightarrow> saq \<Rightarrow> world \<Rightarrow> bool option result" where
  "tcp_client_execute command_handler env w =
     (case recv_message env w of
        (Inl e, w') \<Rightarrow> (Inl e, w')
      | (Inr None, w') \<Rightarrow> (Inr (Some False), w')
      | (Inr (Some cmd), w') \<Rightarrow>
          (let w1 = logging (LogInfoReceived cmd) w'
           in if command cmd = ANP_COMMAND_EXIT then (Inr (Some False), w1)
              else (case command_handler w1 cmd of
                      (Inl e, w2) \<Rightarrow>
                        (Inr None, report_exception (logging (LogErrorProcessing cmd e) w2))
                    | (Inr u, w2) \<Rightarrow> (Inr None, w2))))"

text \<open>
  The \<^verbatim>\<open>while\<close> loop of \<^verbatim>\<open>tcp_client_loop\<close>. The event
  \<^verbatim>\<open>control_event\<close> is set by another thread: \<open>polls\<close> is the number of times
  \<^verbatim>\<open>is_set()\<close> answers \<^verbatim>\<open>False\<close> before \<^verbatim>\<open>stop()\<close> has set it. The
  value that \<^verbatim>\<open>tcp_client_execute\<close> returns is not used, and nothing in the loop
  assigns \<^verbatim>\<open>socket_closed\<close>.
\<close>

fun tcp_client_loop_while :: "handler \<Rightarrow> saq \<Rightarrow> bool \<Rightarrow> nat \<Rightarrow> world \<Rightarrow> world" where
  "tcp_client_loop_while command_handler env socket_closed 0 w = w"
| "tcp_client_loop_while command_handler env socket_closed (Suc polls) w =
     (if socket_closed then w
      else (case tcp_client_execute command_handler env w of
              (Inl e, w') \<Rightarrow> logging (LogWarningHandling e) w'
            | (Inr r, w') \<Rightarrow> tcp_client_loop_while command_handler env socket_closed polls w'))"

text \<open>
  \<^verbatim>\<open>tcp_client_loop\<close>: the loop, then \<^verbatim>\<open>client_socket.shutdown()\<close> in a
  \<^verbatim>\<open>try\<close> that ignores every error. The removal of the thread from the server's
  list is bookkeeping outside one connection and is left out.
\<close>

definition tcp_client_loop :: "handler \<Rightarrow> saq \<Rightarrow> nat \<Rightarrow> world \<Rightarrow> world" where
  "tcp_client_loop command_handler env polls w =
     (let socket_closed = False;
          w1 = tcp_client_loop_while command_handler env socket_closed polls w
      in snd (socket_shutdown None w1))"

subsection \<open>Example states\<close>

text \<open>
  A connection that has just been accepted, with the given pieces on their way from
  the peer, on a filesystem that holds the root directory only.
\<close>

definition new_connection :: "bytes list \<Rightarrow> world" where
  "new_connection segs =
     \<lparr>inbound = segs, outbound = [], send_caps = [], sock_shut = False, sock_closed = False,
      files = Map.empty, dirs = {[47]}, log = []\<rparr>"

text \<open>
  A cipher for the examples: it puts one tag byte in front of the plain text, so that,
  like a cipher with an initialisation vector, it never produces an empty text and
  rejects one.
\<close>

definition tag_encrypt :: "bytes \<Rightarrow> exception + bytes" where
  "tag_encrypt v = Inr (0x2A # v)"

definition tag_decrypt :: "bytes option \<Rightarrow> exception + bytes" where
  "tag_decrypt x =
     (case x of
        None \<Rightarrow> Inl TypeError
      | Some [] \<Rightarrow> Inl ValueError
      | Some (t # r) \<Rightarrow> if t = 0x2A then Inr r else Inl ValueError)"

definition plain_env :: saq where
  "plain_env =
     \<lparr>ENCRYPTION_PASSWORD = None, SAQ_HOME = [47],
      encrypt_chunk = tag_encrypt, decrypt_chunk = tag_decrypt\<rparr>"

definition secret_env :: saq where
  "secret_env =
     \<lparr>ENCRYPTION_PASSWORD = Some [1], SAQ_HOME = [47],
      encrypt_chunk = tag_encrypt, decrypt_chunk = tag_decrypt\<rparr>"

text \<open>
  Two command handlers for the examples: one answers PING with PONG, as a node does,
  and one raises on every message.
\<close>

definition pong_handler :: "saq \<Rightarrow> handler" where
  "pong_handler env w m =
     (case m of
        ANPCommandPING v \<Rightarrow> send_message env (ANPCommandPONG v) w
      | _ \<Rightarrow> (Inr (), w))"

definition failing_handler :: handler where
  "failing_handler w m = (Inl (HandlerError 1), w)"

section \<open>Reading back what was written\<close>

text \<open>
  The socket is usable while this side has neither shut it down nor closed it. A
  fragmentation of a byte string is a list of non-empty pieces that make it up: it
  stands for bytes that arrive in pieces which do not reach into what follows.
\<close>

definition usable :: "world \<Rightarrow> bool" where
  "usable w = (\<not> sock_closed w \<and> \<not> sock_shut w)"

definition frag :: "bytes \<Rightarrow> bytes list \<Rightarrow> bool" where
  "frag d W = (concat W = d \<and> [] \<notin> set W)"

lemma frag_Nil [simp]: "frag d [] = (d = [])"
  by (auto simp: frag_def)

lemma usable_inbound [simp]: "usable (w\<lparr>inbound := x\<rparr>) = usable w"
  by (simp add: usable_def)

lemma usable_outbound [simp]: "usable (w\<lparr>outbound := x\<rparr>) = usable w"
  by (simp add: usable_def)

lemma usable_send_caps [simp]: "usable (w\<lparr>send_caps := x\<rparr>) = usable w"
  by (simp add: usable_def)

lemma usable_files [simp]: "usable (w\<lparr>files := x\<rparr>) = usable w"
  by (simp add: usable_def)

lemma usable_log [simp]: "usable (w\<lparr>log := x\<rparr>) = usable w"
  by (simp add: usable_def)

lemma usable_dirs [simp]: "usable (w\<lparr>dirs := x\<rparr>) = usable w"
  by (simp add: usable_def)





text \<open>
  A writing routine that succeeds hands pieces to the network and changes nothing else
  but the oracle of \<^verbatim>\<open>send\<close>.
\<close>

definition emits :: "world \<Rightarrow> world \<Rightarrow> bytes list \<Rightarrow> bool" where
  "emits w w' W = (\<exists>cs. w' = w\<lparr>outbound := outbound w @ W, send_caps := cs\<rparr>)"

lemma emits_refl: "emits w w []"
  by (auto simp: emits_def intro: exI [of _ "send_caps w"])

lemma emits_trans: "emits w w1 W1 \<Longrightarrow> emits w1 w2 W2 \<Longrightarrow> emits w w2 (W1 @ W2)"
  by (auto simp: emits_def)

lemma emits_usable: "emits w w' W \<Longrightarrow> usable w' = usable w"
  by (auto simp: emits_def)


lemma emits_outbound: "emits w w' W \<Longrightarrow> outbound w' = outbound w @ W"
  by (auto simp: emits_def)

lemma send_accepts:
  assumes "usable w" and "d \<noteq> []"
  shows "\<exists>n w'. send d w = (Inr n, w') \<and> emits w w' [take n d] \<and> 0 < n \<and> n \<le> length d"
proof (cases "send_caps w")
  case Nil
  with assms show ?thesis
    by (auto simp: send_def usable_def emits_def intro!: exI [of _ "[]"])
next
  case (Cons c cs)
  with assms have "send d w = (Inr (min (length d) (Suc c)),
      w\<lparr>outbound := outbound w @ [take (min (length d) (Suc c)) d], send_caps := cs\<rparr>)"
    by (simp add: send_def usable_def min_def)
  with assms(2) show ?thesis
    by (auto simp: emits_def)
qed

lemma write_n_bytes_loop_frag:
  assumes "usable w" and "bytes_written \<le> length d"
  shows "\<exists>W w'. write_n_bytes_loop d bytes_written w = (Inr (), w') \<and> emits w w' W \<and>
           frag (drop bytes_written d) W"
  using assms
proof (induction "length d - bytes_written" arbitrary: bytes_written w rule: less_induct)
  case less
  show ?case
  proof (cases "bytes_written < length d")
    case False
    with less.prems show ?thesis
      by (subst write_n_bytes_loop.simps) (auto intro: emits_refl)
  next
    case True
    define piece where "piece = take (if io_DEFAULT_BUFFER_SIZE < length d then io_DEFAULT_BUFFER_SIZE
        else length d) (drop bytes_written d)"
    have ne: "piece \<noteq> []"
      using True by (auto simp: piece_def io_DEFAULT_BUFFER_SIZE_def)
    from send_accepts [OF \<open>usable w\<close> ne]
    obtain n w1 where s: "send piece w = (Inr n, w1)" and e: "emits w w1 [take n piece]"
      and n: "0 < n" "n \<le> length piece" by blast
    have tk: "take n piece = take n (drop bytes_written d)"
      using n by (simp add: piece_def min_def split: if_splits)
    have le: "bytes_written + n \<le> length d"
      using n True by (auto simp: piece_def split: if_splits)
    have step: "write_n_bytes_loop d bytes_written w = write_n_bytes_loop d (bytes_written + n) w1"
      using True s by (subst write_n_bytes_loop.simps) (simp add: Let_def piece_def)
    have "length d - (bytes_written + n) < length d - bytes_written"
      using True n by simp
    from less.hyps [OF this _ le] e
    obtain W w' where r: "write_n_bytes_loop d (bytes_written + n) w1 = (Inr (), w')"
      and e': "emits w1 w' W" and f: "frag (drop (bytes_written + n) d) W"
      using emits_usable [OF e] less.prems(1) by blast
    have "frag (drop bytes_written d) (take n piece # W)"
    proof -
      have "take n (drop bytes_written d) @ drop n (drop bytes_written d) = drop bytes_written d"
        by (rule append_take_drop_id)
      moreover have "take n (drop bytes_written d) \<noteq> []"
        using n True by simp
      ultimately show ?thesis
        using f tk by (simp add: frag_def add.commute)
    qed
    moreover have "emits w w' (take n piece # W)"
      using emits_trans [OF e e'] by simp
    ultimately show ?thesis using step r by auto
  qed
qed

lemma write_n_bytes_frag:
  assumes "usable w"
  shows "\<exists>W w'. write_n_bytes d w = (Inr (), w') \<and> emits w w' W \<and> frag d W"
  using write_n_bytes_loop_frag [OF assms, of 0 d] by (simp add: write_n_bytes_def)

lemma uint_digits:
  assumes "v < 2 ^ 32"
  shows "v div 16777216 mod 256 * 16777216 + v div 65536 mod 256 * 65536
         + v div 256 mod 256 * 256 + v mod 256 = (v::nat)"
proof -
  define a where "a = v div 256"
  define b where "b = a div 256"
  define c where "c = b div 256"
  define vm where "vm = v mod 256"
  define am where "am = a mod 256"
  define bm where "bm = b mod 256"
  have b: "v div 65536 = b"
    using div_mult2_eq [of v 256 256] by (simp add: a_def b_def)
  have c: "v div 16777216 = c"
    using div_mult2_eq [of v 65536 256] b by (simp add: c_def)
  have "c < 256"
    using assms less_mult_imp_div_less [of v 256 16777216] by (simp add: c [symmetric])
  then have cm: "c mod 256 = c" by simp
  have 1: "v = a * 256 + vm" by (simp add: a_def vm_def)
  have 2: "a = b * 256 + am" by (simp add: b_def am_def)
  have 3: "b = c * 256 + bm" by (simp add: c_def bm_def)
  have "c * 16777216 + bm * 65536 + am * 256 + vm = v"
    using 1 2 3 by simp
  then show ?thesis
    by (simp only: b c cm a_def [symmetric] am_def [symmetric] bm_def [symmetric] vm_def [symmetric])
qed

lemma uint_round_trip:
  assumes "v < 2 ^ 32"
  shows "\<exists>h. struct_pack_uint v = Inr h \<and> length h = 4 \<and> struct_unpack_uint h = Inr v"
  using assms uint_digits [OF assms]
  by (simp add: struct_pack_uint_def struct_unpack_uint_def unat_of_nat)






















text \<open>Messages: the command id, then the parameters of the class.\<close>

lemmas command_ids = ANP_COMMAND_EXIT_def ANP_COMMAND_REGISTER_def ANP_COMMAND_OK_def
  ANP_COMMAND_ERROR_def ANP_COMMAND_PING_def ANP_COMMAND_PONG_def ANP_COMMAND_AVAILABLE_def
  ANP_COMMAND_COPY_FILE_def ANP_COMMAND_PROCESS_def ANP_COMMAND_BUSY_def

lemma logging_fields [simp]:
  "inbound (logging ev w) = inbound w" "outbound (logging ev w) = outbound w"
  "files (logging ev w) = files w" "dirs (logging ev w) = dirs w"
  "sock_closed (logging ev w) = sock_closed w" "sock_shut (logging ev w) = sock_shut w"
  "usable (logging ev w) = usable w" "log (logging ev w) = log w @ [ev]"
  by (simp_all add: logging_def usable_def)


lemma emits_same: "emits w w W \<Longrightarrow> W = []"
  by (auto simp: emits_def dest: arg_cong [where f = outbound])





text \<open>The equations that run the model on the example states.\<close>

lemmas run_socket = read_n_bytes_def read_n_bytes_loop.simps recv_def send_def
  write_n_bytes_def write_n_bytes_loop.simps io_DEFAULT_BUFFER_SIZE_def
  struct_pack_uint_def struct_unpack_uint_def read_uint_def write_uint_def
  read_data_def write_data_def truthy_def new_connection_def

lemmas run_strings = read_string_def write_string_def str_encode_utf16_def
  utf16_encode_code_point_def unit_bytes_le_def bytes_decode_utf16_def utf16_decode_body_def

lemmas run_messages = recv_message_def send_message_def ANP_CLASS_LOOKUP_def command_ids

lemmas run_env = plain_env_def secret_env_def tag_encrypt_def tag_decrypt_def



lemma usable_new_connection [simp]: "usable (new_connection segs)"
  by (simp add: usable_def new_connection_def)

lemmas run_files = os_path_join_def os_path_dirname_def os_path_isdir_def os_path_exists_def
  os_makedirs_def open_wb_def open_rb_def fp_write_def recv_copy_file_def logging_def
  read_chunked_data.simps write_chunked_data.simps DEFAULT_CHUNK_SIZE_def LAST_CHUNK_def
  Let_def

text \<open>The lookup table and the classes.\<close>

lemma lookup_unknown: "c \<notin> {1..10} \<Longrightarrow> ANP_CLASS_LOOKUP c = None"
  by (auto simp: ANP_CLASS_LOOKUP_def command_ids)

lemma lookup_sets_command: "ANP_CLASS_LOOKUP c = Some cls \<Longrightarrow> command (cls arg) = c"
  by (auto simp: ANP_CLASS_LOOKUP_def command_ids split: if_splits)

lemma lookup_known: "ANP_CLASS_LOOKUP c = Some cls \<Longrightarrow> c \<in> {1..10}"
  by (auto simp: ANP_CLASS_LOOKUP_def command_ids split: if_splits)

lemma lookup_total: "c \<in> {1..10} \<Longrightarrow> \<exists>cls. ANP_CLASS_LOOKUP c = Some cls"
proof -
  assume "c \<in> {1..10}"
  then have "1 \<le> c" "c \<le> 10" by simp_all
  then have "c = 1 \<or> c = 2 \<or> c = 3 \<or> c = 4 \<or> c = 5 \<or> c = 6 \<or> c = 7 \<or> c = 8 \<or> c = 9 \<or> c = 10"
    by arith
  then show ?thesis
    by (auto simp: ANP_CLASS_LOOKUP_def command_ids)
qed

lemma recv_copy_file_class:
  "recv_copy_file env v sp w = (Inr m, w') \<Longrightarrow> m = ANPCommandCOPY_FILE v sp"
  by (auto simp: recv_copy_file_def Let_def split: pyval.splits prod.splits sum.splits if_splits)

lemma recv_parameters_class:
  assumes "recv_parameters env m0 w = (Inr m, w')"
  shows "(case m0 of
            ANPCommandERROR x \<Rightarrow> \<exists>v. m = ANPCommandERROR v
          | ANPCommandPING x \<Rightarrow> \<exists>v. m = ANPCommandPING v
          | ANPCommandPONG x \<Rightarrow> \<exists>v. m = ANPCommandPONG v
          | ANPCommandCOPY_FILE x sp \<Rightarrow> \<exists>v. m = ANPCommandCOPY_FILE v sp
          | ANPCommandPROCESS x \<Rightarrow> \<exists>v. m = ANPCommandPROCESS v
          | _ \<Rightarrow> m = m0)"
  using assms
  by (cases m0) (auto split: prod.splits sum.splits dest: recv_copy_file_class)

lemma recv_parameters_command:
  "recv_parameters env m0 w = (Inr m, w') \<Longrightarrow> command m = command m0"
  by (drule recv_parameters_class) (auto split: ANPMessage.splits)

lemma command_range: "command m \<in> {1..10}"
  by (cases m) (simp_all add: command_ids)

lemma write_uint_sends:
  assumes "usable s" and "v < 2 ^ 32"
  shows "\<exists>h s1. struct_pack_uint v = Inr h \<and> write_uint v s = (Inr (), s1) \<and>
           concat (outbound s1) = concat (outbound s) @ h"
proof -
  from uint_round_trip [OF assms(2)] obtain h where h: "struct_pack_uint v = Inr h" by blast
  from write_n_bytes_frag [OF assms(1), of h]
  obtain W s1 where "write_n_bytes h s = (Inr (), s1)" "emits s s1 W" "frag h W" by blast
  with h emits_outbound [of s s1 W] show ?thesis
    by (auto simp: write_uint_def frag_def)
qed

lemmas run_server = tcp_client_loop_def tcp_client_execute_def socket_shutdown_def
  socket_close_def close_socket_def report_exception_def logging_def pong_handler_def
  failing_handler_def Let_def



section \<open>Properties\<close>

subsection \<open>Reading an exact number of bytes\<close>

text \<open>
  C2. The claim: for every count \<open>n > 0\<close>, \<^verbatim>\<open>read_n_bytes(n)\<close> returns exactly
  \<open>n\<close> bytes whenever the peer supplies at least \<open>n\<close>, looping over short reads, and
  never consumes or returns bytes beyond the \<open>n\<close> requested.

  The code asks \<^verbatim>\<open>recv\<close> for \<^verbatim>\<open>min(DEFAULT_BUFFER_SIZE, count)\<close> bytes in
  every round, not for the bytes still missing (\<^verbatim>\<open>bytes_left\<close> is computed and
  used in the error message only). After a short read the next \<^verbatim>\<open>recv\<close> may
  return more than is missing, and the slice assignment makes the buffer longer. Here
  four bytes are asked for; the network hands over two bytes, then four: the call
  returns six bytes and has taken two bytes of whatever follows. No short read is
  needed when the count is above the buffer size: 8193 bytes are asked for and 8197
  have arrived in one piece; the second \<^verbatim>\<open>recv(8192)\<close> returns the five
  bytes that are left, and the call returns all 8197. (When no piece reaches beyond
  the bytes asked for, the call returns exactly these, lemma \<open>read_n_bytes_exact\<close>.)
\<close>

theorem read_n_bytes_overshoots:
  "read_n_bytes 4 (new_connection [[1, 2], [3, 4, 5, 6]]) =
     (Inr (Some [1, 2, 3, 4, 5, 6]), new_connection []) \<and>
   read_n_bytes 8193 (new_connection [replicate 8192 1 @ [1, 0, 0, 0, 0]]) =
     (Inr (Some (replicate 8192 1 @ [1, 0, 0, 0, 0])), new_connection [])"
  by (simp add: read_n_bytes_def read_n_bytes_loop.simps recv_def io_DEFAULT_BUFFER_SIZE_def
        new_connection_def)

subsection \<open>Decoding what was encoded\<close>




subsection \<open>Chunked streams\<close>

text \<open>
  C8. The claim: for every byte sequence, \<^verbatim>\<open>write_chunked_data\<close> emits its chunks
  and then exactly one zero-length terminator block, and \<^verbatim>\<open>read_chunked_data\<close>
  applied to that stream appends the blocks in order, stops at the terminator and
  reproduces the data.

  The writing side does so: for the two bytes 1, 2 it sends one block and the
  terminator. The reading side inherits the defect of \<^verbatim>\<open>read_n_bytes\<close> (C2):
  when the same bytes arrive with the first length prefix split after two bytes, the
  second \<^verbatim>\<open>recv\<close> of \<^verbatim>\<open>read_uint\<close> takes the data bytes as well,
  \<^verbatim>\<open>struct.unpack\<close> gets six bytes and raises, and nothing reaches the file.
  (When the pieces arrive as they were sent the stream is read back, lemma
  \<open>chunked_round_trip\<close>.)
\<close>

theorem chunked_stream_lost_on_short_read:
  "write_chunked_data plain_env [1, 2] (new_connection []) =
     (Inr (), (new_connection [])\<lparr>outbound := [[0, 0, 0, 2], [1, 2], [0, 0, 0, 0]]\<rparr>) \<and>
   concat [[0, 0], [0, 2, 1, 2], [0, 0, 0, 0]] = concat [[0, 0, 0, 2], [1, 2], [0, 0, 0, 0 :: byte]] \<and>
   read_chunked_data plain_env [102]
       ((new_connection [[0, 0], [0, 2, 1, 2], [0, 0, 0, 0]])\<lparr>files := [[102] \<mapsto> []]\<rparr>) =
     (Inl StructError, (new_connection [[0, 0, 0, 0]])\<lparr>files := [[102] \<mapsto> []]\<rparr>)"
  by (simp add: run_socket run_env run_files)

subsection \<open>The peer closes the connection\<close>

text \<open>
  C3. The claim: if the peer closes after the complete command id of a message with a
  payload (PING, say) and before any payload byte, the receiver fails with a truncated
  stream error; if it closes before any byte of the next frame, the receiver gets the
  no-message result.

  The second half holds. For the first, \<^verbatim>\<open>read_n_bytes\<close> returns
  \<^verbatim>\<open>None\<close> whenever the stream ends before the first byte of a call, also in
  the middle of a frame; \<^verbatim>\<open>read_uint\<close>, \<^verbatim>\<open>read_data\<close> and
  \<^verbatim>\<open>read_string\<close> pass the \<^verbatim>\<open>None\<close> on, and
  \<^verbatim>\<open>recv_parameters\<close> stores it: \<^verbatim>\<open>recv_message\<close> returns a PING whose
  message is \<^verbatim>\<open>None\<close>, and no error is raised.
\<close>

theorem closed_after_command_id_is_no_error:
  "recv_message plain_env (new_connection [[0, 0, 0, 5]]) =
     (Inr (Some (ANPCommandPING PyNone)), new_connection []) \<and>
   recv_message plain_env (new_connection []) = (Inr None, new_connection [])"
  by (simp add: run_socket run_strings run_messages run_env)

subsection \<open>Blocks and the shared secret\<close>




subsection \<open>Dispatch on the command id\<close>

text \<open>
  C7. Once \<^verbatim>\<open>recv_message\<close> has read a command id: for an id outside
  \<open>{1, ..., 10}\<close> it fails with the \<^verbatim>\<open>ANPException\<close> for an unknown
  command, having consumed the id only; for an id in the set the lookup finds a class
  and the call goes on with the parameters of that class; and every message it returns
  carries the id that was read and is of the variant the wire contract assigns to it
  (EXIT 1, REGISTER 2, OK 3, ERROR 4, PING 5, PONG 6, AVAILABLE 7, COPY_FILE 8,
  PROCESS 9, BUSY 10).
\<close>

theorem recv_message_dispatch:
  assumes "read_uint w = (Inr (Some c), w')"
  shows "(c \<notin> {1..10} \<longrightarrow> recv_message env w = (Inl (ANPException (UnknownCommand c)), w')) \<and>
         (c \<in> {1..10} \<longrightarrow>
            (\<exists>cls. ANP_CLASS_LOOKUP c = Some cls \<and>
               recv_message env w =
                 (case recv_parameters env (cls PyANPSocket) w' of
                    (Inl e, w'') \<Rightarrow> (Inl e, w'')
                  | (Inr result, w'') \<Rightarrow> (Inr (Some result), w'')))) \<and>
         (\<forall>m w''. recv_message env w = (Inr (Some m), w'') \<longrightarrow>
            c \<in> {1..10} \<and> command m = c \<and>
            (c = 1 \<longrightarrow> m = ANPCommandEXIT) \<and>
            (c = 2 \<longrightarrow> m = ANPCommandREGISTER) \<and>
            (c = 3 \<longrightarrow> m = ANPCommandOK) \<and>
            (c = 4 \<longrightarrow> (\<exists>v. m = ANPCommandERROR v)) \<and>
            (c = 5 \<longrightarrow> (\<exists>v. m = ANPCommandPING v)) \<and>
            (c = 6 \<longrightarrow> (\<exists>v. m = ANPCommandPONG v)) \<and>
            (c = 7 \<longrightarrow> m = ANPCommandAVAILABLE) \<and>
            (c = 8 \<longrightarrow> (\<exists>v sp. m = ANPCommandCOPY_FILE v sp)) \<and>
            (c = 9 \<longrightarrow> (\<exists>v. m = ANPCommandPROCESS v)) \<and>
            (c = 10 \<longrightarrow> m = ANPCommandBUSY))"
proof (intro conjI)
  show "c \<notin> {1..10} \<longrightarrow> recv_message env w = (Inl (ANPException (UnknownCommand c)), w')"
    using assms lookup_unknown [of c] by (auto simp: recv_message_def)
  show "c \<in> {1..10} \<longrightarrow>
            (\<exists>cls. ANP_CLASS_LOOKUP c = Some cls \<and>
               recv_message env w =
                 (case recv_parameters env (cls PyANPSocket) w' of
                    (Inl e, w'') \<Rightarrow> (Inl e, w'')
                  | (Inr result, w'') \<Rightarrow> (Inr (Some result), w'')))"
    using assms lookup_total [of c] by (auto simp: recv_message_def)
  show "\<forall>m w''. recv_message env w = (Inr (Some m), w'') \<longrightarrow>
            c \<in> {1..10} \<and> command m = c \<and>
            (c = 1 \<longrightarrow> m = ANPCommandEXIT) \<and>
            (c = 2 \<longrightarrow> m = ANPCommandREGISTER) \<and>
            (c = 3 \<longrightarrow> m = ANPCommandOK) \<and>
            (c = 4 \<longrightarrow> (\<exists>v. m = ANPCommandERROR v)) \<and>
            (c = 5 \<longrightarrow> (\<exists>v. m = ANPCommandPING v)) \<and>
            (c = 6 \<longrightarrow> (\<exists>v. m = ANPCommandPONG v)) \<and>
            (c = 7 \<longrightarrow> m = ANPCommandAVAILABLE) \<and>
            (c = 8 \<longrightarrow> (\<exists>v sp. m = ANPCommandCOPY_FILE v sp)) \<and>
            (c = 9 \<longrightarrow> (\<exists>v. m = ANPCommandPROCESS v)) \<and>
            (c = 10 \<longrightarrow> m = ANPCommandBUSY)"
  proof (intro allI impI)
    fix m w''
    assume rm: "recv_message env w = (Inr (Some m), w'')"
    with assms obtain cls where cls: "ANP_CLASS_LOOKUP c = Some cls"
      and rp: "recv_parameters env (cls PyANPSocket) w' = (Inr m, w'')"
      by (auto simp: recv_message_def split: option.splits prod.splits sum.splits)
    from recv_parameters_command [OF rp] lookup_sets_command [OF cls]
    have cm: "command m = c" by simp
    from cm have "c = 1 \<Longrightarrow> m = ANPCommandEXIT" "c = 2 \<Longrightarrow> m = ANPCommandREGISTER"
      "c = 3 \<Longrightarrow> m = ANPCommandOK" "c = 4 \<Longrightarrow> \<exists>v. m = ANPCommandERROR v"
      "c = 5 \<Longrightarrow> \<exists>v. m = ANPCommandPING v" "c = 6 \<Longrightarrow> \<exists>v. m = ANPCommandPONG v"
      "c = 7 \<Longrightarrow> m = ANPCommandAVAILABLE" "c = 8 \<Longrightarrow> \<exists>v sp. m = ANPCommandCOPY_FILE v sp"
      "c = 9 \<Longrightarrow> \<exists>v. m = ANPCommandPROCESS v" "c = 10 \<Longrightarrow> m = ANPCommandBUSY"
      by (cases m; simp add: command_ids)+
    with cm lookup_known [OF cls]
    show "c \<in> {1..10} \<and> command m = c \<and>
            (c = 1 \<longrightarrow> m = ANPCommandEXIT) \<and>
            (c = 2 \<longrightarrow> m = ANPCommandREGISTER) \<and>
            (c = 3 \<longrightarrow> m = ANPCommandOK) \<and>
            (c = 4 \<longrightarrow> (\<exists>v. m = ANPCommandERROR v)) \<and>
            (c = 5 \<longrightarrow> (\<exists>v. m = ANPCommandPING v)) \<and>
            (c = 6 \<longrightarrow> (\<exists>v. m = ANPCommandPONG v)) \<and>
            (c = 7 \<longrightarrow> m = ANPCommandAVAILABLE) \<and>
            (c = 8 \<longrightarrow> (\<exists>v sp. m = ANPCommandCOPY_FILE v sp)) \<and>
            (c = 9 \<longrightarrow> (\<exists>v. m = ANPCommandPROCESS v)) \<and>
            (c = 10 \<longrightarrow> m = ANPCommandBUSY)"
      by blast
  qed
qed

text \<open>Instances: the id 9999, and the id 3 followed by other bytes.\<close>

theorem recv_message_dispatch_witness:
  "read_uint (new_connection [[0, 0, 39, 15]]) = (Inr (Some 9999), new_connection []) \<and>
   recv_message plain_env (new_connection [[0, 0, 39, 15]]) =
     (Inl (ANPException (UnknownCommand 9999)), new_connection []) \<and>
   read_uint (new_connection [[0, 0, 0, 3], [0, 0, 0, 0]]) =
     (Inr (Some 3), new_connection [[0, 0, 0, 0]]) \<and>
   recv_message plain_env (new_connection [[0, 0, 0, 3], [0, 0, 0, 0]]) =
     (Inr (Some ANPCommandOK), new_connection [[0, 0, 0, 0]])"
proof -
  have 1: "read_uint (new_connection [[0, 0, 39, 15]]) = (Inr (Some 9999), new_connection [])"
    by (simp add: run_socket)
  have 2: "read_uint (new_connection [[0, 0, 0, 3], [0, 0, 0, 0]]) =
      (Inr (Some 3), new_connection [[0, 0, 0, 0]])"
    by (simp add: run_socket)
  from recv_message_dispatch [OF 1, of plain_env]
  have 3: "recv_message plain_env (new_connection [[0, 0, 39, 15]]) =
      (Inl (ANPException (UnknownCommand 9999)), new_connection [])"
    by simp
  from recv_message_dispatch [OF 2, of plain_env]
  obtain cls where "ANP_CLASS_LOOKUP 3 = Some cls"
    and "recv_message plain_env (new_connection [[0, 0, 0, 3], [0, 0, 0, 0]]) =
      (case recv_parameters plain_env (cls PyANPSocket) (new_connection [[0, 0, 0, 0]]) of
         (Inl e, w'') \<Rightarrow> (Inl e, w'')
       | (Inr result, w'') \<Rightarrow> (Inr (Some result), w''))"
    by auto
  then have 4: "recv_message plain_env (new_connection [[0, 0, 0, 3], [0, 0, 0, 0]]) =
      (Inr (Some ANPCommandOK), new_connection [[0, 0, 0, 0]])"
    by (auto simp: ANP_CLASS_LOOKUP_def command_ids)
  from 1 2 3 4 show ?thesis by blast
qed

subsection \<open>The command id of a received message\<close>

text \<open>
  C10. Instantiating the class that the lookup table gives for a command id yields an
  object whose \<^verbatim>\<open>command\<close> is that id. So a message that
  \<^verbatim>\<open>recv_message\<close> returns carries the id that was read for it, and
  \<^verbatim>\<open>send_message\<close>, on a usable socket, first sends the four bytes of that
  same id and then the parameters.
\<close>

theorem command_of_looked_up_class:
  "(ANP_CLASS_LOOKUP c = Some cls \<longrightarrow> command (cls arg) = c) \<and>
   (recv_message env w = (Inr (Some m), w') \<longrightarrow>
      (\<exists>w1. read_uint w = (Inr (Some (command m)), w1)) \<and>
      (usable s \<longrightarrow>
         (\<exists>h s1. struct_pack_uint (command m) = Inr h \<and>
                 write_uint (command m) s = (Inr (), s1) \<and>
                 concat (outbound s1) = concat (outbound s) @ h \<and>
                 send_message env m s = send_parameters env m s1)))"
proof (intro conjI impI)
  assume "ANP_CLASS_LOOKUP c = Some cls"
  then show "command (cls arg) = c" by (rule lookup_sets_command)
next
  assume "recv_message env w = (Inr (Some m), w')"
  then obtain c w1 cls where ru: "read_uint w = (Inr (Some c), w1)"
    and cls: "ANP_CLASS_LOOKUP c = Some cls"
    and rp: "recv_parameters env (cls PyANPSocket) w1 = (Inr m, w')"
    by (auto simp: recv_message_def split: option.splits prod.splits sum.splits)
  from recv_parameters_command [OF rp] lookup_sets_command [OF cls] have "command m = c"
    by simp
  with ru show "\<exists>w1. read_uint w = (Inr (Some (command m)), w1)" by blast
next
  assume "usable s"
  moreover have "command m < 2 ^ 32" using command_range [of m] by simp
  ultimately obtain h s1 where "struct_pack_uint (command m) = Inr h"
    and "write_uint (command m) s = (Inr (), s1)"
    and "concat (outbound s1) = concat (outbound s) @ h"
    using write_uint_sends by blast
  then show "\<exists>h s1. struct_pack_uint (command m) = Inr h \<and>
                 write_uint (command m) s = (Inr (), s1) \<and>
                 concat (outbound s1) = concat (outbound s) @ h \<and>
                 send_message env m s = send_parameters env m s1"
    by (auto simp: send_message_def)
qed

text \<open>Instances: the entry for PING, and BUSY received and sent again.\<close>

theorem command_of_looked_up_class_witness:
  "ANP_CLASS_LOOKUP 5 = Some ANPCommandPING \<and>
   command (ANPCommandPING PyANPSocket) = 5 \<and>
   recv_message plain_env (new_connection [[0, 0, 0, 10]]) =
     (Inr (Some ANPCommandBUSY), new_connection []) \<and>
   (\<exists>w1. read_uint (new_connection [[0, 0, 0, 10]]) = (Inr (Some (command ANPCommandBUSY)), w1)) \<and>
   (\<exists>h s1. struct_pack_uint (command ANPCommandBUSY) = Inr h \<and>
           write_uint (command ANPCommandBUSY) (new_connection []) = (Inr (), s1) \<and>
           concat (outbound s1) = concat (outbound (new_connection [])) @ h \<and>
           send_message plain_env ANPCommandBUSY (new_connection []) =
             send_parameters plain_env ANPCommandBUSY s1)"
proof -
  have 1: "ANP_CLASS_LOOKUP 5 = Some ANPCommandPING"
    by (simp add: ANP_CLASS_LOOKUP_def command_ids)
  have 2: "recv_message plain_env (new_connection [[0, 0, 0, 10]]) =
      (Inr (Some ANPCommandBUSY), new_connection [])"
    by (simp add: run_socket run_messages)
  note t = command_of_looked_up_class [of 5 ANPCommandPING PyANPSocket plain_env
      "new_connection [[0, 0, 0, 10]]" ANPCommandBUSY "new_connection []" "new_connection []"]
  from t 1 have 3: "command (ANPCommandPING PyANPSocket) = 5" by blast
  from t 2 usable_new_connection [of "[]"] show ?thesis
    using 1 3 by blast
qed

subsection \<open>The loop of a connection\<close>

text \<open>
  C1. The claim: when \<^verbatim>\<open>recv_message\<close> yields no message or the message is
  EXIT, the loop of the connection ends; no further message is decoded and the handler
  is not called again on that connection.

  \<^verbatim>\<open>tcp_client_execute\<close> returns \<^verbatim>\<open>False\<close> in both cases, but
  \<^verbatim>\<open>tcp_client_loop\<close> drops the value and never assigns
  \<^verbatim>\<open>socket_closed\<close>: the loop goes on until the server is stopped or an
  exception is raised. Here the peer sends EXIT and then PING with the message \<open>hi\<close>,
  and the server is stopped after two rounds: the PING is decoded and the handler
  answers it with PONG.
\<close>

theorem loop_serves_after_exit:
  "tcp_client_loop (pong_handler plain_env) plain_env (Suc (Suc 0))
     (new_connection [[0, 0, 0, 1], [0, 0, 0, 5], [0, 0, 0, 6], [255, 254, 104, 0, 105, 0]]) =
   (new_connection [])
     \<lparr>outbound := [[0, 0, 0, 6], [0, 0, 0, 6], [255, 254, 104, 0, 105, 0]],
      log := [LogInfoReceived ANPCommandEXIT,
              LogInfoReceived (ANPCommandPING (PyStr [104, 105]))]\<rparr>"
  by (simp add: run_server run_socket run_strings run_messages run_env)

text \<open>
  C9. The claim: on every way out of the loop of a connection the socket is closed
  before the worker ends.

  After the loop the code calls \<^verbatim>\<open>client_socket.shutdown()\<close> without the
  required argument, inside a \<^verbatim>\<open>try\<close> that ignores the type error, and never
  calls \<^verbatim>\<open>close\<close>. Two ways out: the peer sends EXIT and the server is
  stopped; the peer sends the unknown id 9999 and the exception ends the loop. In
  both the socket is neither shut down nor closed, while
  \<^verbatim>\<open>ANPSocket.close_socket\<close> does close it.
\<close>

theorem loop_leaves_socket_open:
  "\<not> sock_closed (tcp_client_loop (pong_handler plain_env) plain_env (Suc 0)
                   (new_connection [[0, 0, 0, 1]])) \<and>
   \<not> sock_shut (tcp_client_loop (pong_handler plain_env) plain_env (Suc 0)
                 (new_connection [[0, 0, 0, 1]])) \<and>
   tcp_client_loop (pong_handler plain_env) plain_env (Suc (Suc (Suc 0))) (new_connection [[0, 0, 39, 15]]) =
     (new_connection [])\<lparr>log := [LogWarningHandling (ANPException (UnknownCommand 9999))]\<rparr> \<and>
   sock_closed (close_socket (new_connection []))"
  by (simp add: run_server run_socket run_strings run_messages run_env)




end
